theory Spec2Isabelle
  imports Main
begin

section \<open>The health API of \<open>main.py\<close>: data model\<close>

text \<open>
  The module keeps three mutable globals (\<open>users\<close>, \<open>health_metrics\<close>, \<open>appointments\<close>) and
  the seeded list \<open>doctors\<close>. Every handler is modelled as a function from the state
  before the request to an error or a response; a handler that writes a global returns the
  state after the request as well, on every path. What a handler reads from outside the
  program (the fresh salt of \<open>bcrypt.gensalt()\<close>, the clock of \<open>datetime.now()\<close>) is an
  argument.
\<close>

subsection \<open>Library functions\<close>

text \<open>
  \<open>jwt\<close> and \<open>bcrypt\<close> are third-party packages: the program is modelled over any
  implementation of the four functions it calls. A decoded token is a JSON object; only
  the shape of the value stored under a key matters to the handlers.
\<close>

type_synonym bytes = string

datatype jval = JStr string | JNum int | JBool bool | JNull

type_synonym payload = "string \<rightharpoonup> jval"

record libs =
  jwt_encode :: "payload \<Rightarrow> string \<Rightarrow> string"
  jwt_decode :: "string \<Rightarrow> string \<Rightarrow> payload option"
  hashpw :: "bytes \<Rightarrow> bytes \<Rightarrow> bytes"
  checkpw :: "bytes \<Rightarrow> bytes \<Rightarrow> bool"
  JWT_SECRET :: string

text \<open>\<open>jwt_decode\<close> is \<open>None\<close> where \<open>jwt.decode\<close> raises a \<open>PyJWTError\<close>.\<close>

definition payload_get :: "payload \<Rightarrow> string \<Rightarrow> jval" where
  \<comment> \<open>\<open>dict.get(key)\<close>: \<open>None\<close> for a missing key\<close>
  "payload_get p k = (case p k of None \<Rightarrow> JNull | Some v \<Rightarrow> v)"

subsection \<open>Models and stored dictionaries\<close>

text \<open>
  The field \<open>id\<close> is written \<open>id'\<close>. The dictionary stored by \<open>register_user\<close> has the
  keys of \<open>User\<close> and \<open>password\<close>; the one stored by \<open>create_appointment\<close> has the keys of
  \<open>Appointment\<close>, \<open>doctor_name\<close> and \<open>specialty\<close>.
\<close>

record User =
  id' :: int
  username :: string
  role :: string

record StoredUser = User +
  password :: bytes

record UserCreate =
  uc_username :: string
  uc_password :: string
  uc_role :: string

record HealthMetrics =
  sleep :: int
  exercise :: int
  waterIntake :: int
  sex :: "string option"

record Doctor =
  doc_id :: int
  doc_name :: string
  doc_specialty :: string

text \<open>
  A \<open>datetime\<close> is naive (a reading of a wall clock, here in microseconds) or aware (an
  instant and a UTC offset). Python orders two naive values and two aware values; comparing
  a naive with an aware value raises \<open>TypeError\<close>. The request model parses a date with an
  offset or a trailing \<open>Z\<close> to an aware value and a date without one to a naive value.
\<close>

datatype datetime = Naive int | Aware int int

record Appointment =
  patient_id :: int
  doctor_id :: int
  date :: datetime
  reason :: "string option"

record StoredAppointment = Appointment +
  doctor_name :: string
  specialty :: string

record TokenResponse =
  access_token :: string
  token_type :: string

record AppointmentResponse =
  message :: string
  appointment :: StoredAppointment

datatype SymptomResponse = Message string | MatchedConditions "string set"

subsection \<open>Errors\<close>

text \<open>
  \<open>HTTPException status_code detail headers\<close> is what the handlers raise. \<open>TypeError\<close> is
  raised by a comparison and caught by no handler; the server answers it with status 500.
\<close>

datatype error = HTTPException int string "(string \<times> string) list" | TypeError

fun status_code :: "error \<Rightarrow> int" where
  "status_code (HTTPException c d h) = c"
| "status_code TypeError = 500"

fun detail :: "error \<Rightarrow> string" where
  "detail (HTTPException c d h) = d"
| "detail TypeError = ''Internal Server Error''"

subsection \<open>State\<close>

record state =
  users :: "StoredUser list"
  health_metrics :: "int \<rightharpoonup> HealthMetrics"
  doctors :: "Doctor list"
  appointments :: "StoredAppointment list"

definition seed_doctors :: "Doctor list" where
  "seed_doctors =
    [\<lparr>doc_id = 1, doc_name = ''Dr. Alice Smith'', doc_specialty = ''Cardiology''\<rparr>,
     \<lparr>doc_id = 2, doc_name = ''Dr. Bob Johnson'', doc_specialty = ''Pediatrics''\<rparr>,
     \<lparr>doc_id = 3, doc_name = ''Dr. Carol Williams'', doc_specialty = ''Mental Health''\<rparr>]"

definition init_state :: state where
  "init_state = \<lparr>users = [], health_metrics = Map.empty, doctors = seed_doctors,
     appointments = []\<rparr>"

section \<open>Utility functions\<close>

definition create_access_token :: "libs \<Rightarrow> payload \<Rightarrow> string" where
  "create_access_token env data = jwt_encode env data (JWT_SECRET env)"

definition verify_password :: "libs \<Rightarrow> string \<Rightarrow> bytes \<Rightarrow> bool" where
  "verify_password env plain_password hashed_password =
     checkpw env plain_password hashed_password"

definition hash_password :: "libs \<Rightarrow> string \<Rightarrow> bytes \<Rightarrow> bytes" where
  \<comment> \<open>the third argument is the value of \<open>bcrypt.gensalt()\<close>\<close>
  "hash_password env pw salt = hashpw env pw salt"

definition find_user :: "StoredUser list \<Rightarrow> jval \<Rightarrow> StoredUser option" where
  \<comment> \<open>\<open>next((user for user in users if user["username"] == username), None)\<close>\<close>
  "find_user us name = List.find (\<lambda>user. JStr (username user) = name) us"

definition find_doctor :: "Doctor list \<Rightarrow> int \<Rightarrow> Doctor option" where
  \<comment> \<open>\<open>next((doc for doc in doctors if doc["id"] == appointment.doctor_id), None)\<close>\<close>
  "find_doctor ds i = List.find (\<lambda>doc. doc_id doc = i) ds"

fun datetime_le :: "datetime \<Rightarrow> datetime \<Rightarrow> error + bool" where
  "datetime_le (Naive a) (Naive b) = Inr (a \<le> b)"
| "datetime_le (Aware a oa) (Aware b ob) = Inr (a \<le> b)"
| "datetime_le (Naive a) (Aware b ob) = Inl TypeError"
| "datetime_le (Aware a oa) (Naive b) = Inl TypeError"

section \<open>User management\<close>

definition register_user :: "libs \<Rightarrow> state \<Rightarrow> UserCreate \<Rightarrow> bytes \<Rightarrow> User \<times> state" where
  "register_user env s user salt =
    (let user_id = int (length (users s)) + 1;
         hashed_password = hash_password env (uc_password user) salt;
         new_user = \<lparr>id' = user_id, username = uc_username user, role = uc_role user,
                     password = hashed_password\<rparr>
     in (\<lparr>id' = id' new_user, username = username new_user, role = role new_user\<rparr>,
         s\<lparr>users := users s @ [new_user]\<rparr>))"

definition invalid_credentials :: error where
  "invalid_credentials =
     HTTPException 401 ''Incorrect username or password'' [(''WWW-Authenticate'', ''Bearer'')]"

definition login_for_access_token ::
    "libs \<Rightarrow> state \<Rightarrow> string \<Rightarrow> string \<Rightarrow> error + TokenResponse" where
  "login_for_access_token env s form_username form_password =
    (case find_user (users s) (JStr form_username) of
       None \<Rightarrow> Inl invalid_credentials
     | Some user \<Rightarrow>
         if \<not> verify_password env form_password (password user)
         then Inl invalid_credentials
         else Inr \<lparr>access_token =
                     create_access_token env [''sub'' \<mapsto> JStr (username user)],
                   token_type = ''bearer''\<rparr>)"

section \<open>Health dashboard\<close>

definition default_metrics :: HealthMetrics where
  "default_metrics = \<lparr>sleep = 0, exercise = 0, waterIntake = 0, sex = Some ''f/m''\<rparr>"

definition get_dashboard :: "libs \<Rightarrow> state \<Rightarrow> string \<Rightarrow> error + HealthMetrics" where
  "get_dashboard env s token =
    (case jwt_decode env token (JWT_SECRET env) of
       None \<Rightarrow> Inl (HTTPException 403 ''Could not validate credentials'' [])
     | Some payload \<Rightarrow>
         (case find_user (users s) (payload_get payload ''sub'') of
            None \<Rightarrow> Inl (HTTPException 404 ''User not found'' [])
          | Some user \<Rightarrow>
              Inr (case health_metrics s (id' user) of
                     None \<Rightarrow> default_metrics
                   | Some user_metrics \<Rightarrow> user_metrics)))"

definition update_dashboard ::
    "libs \<Rightarrow> state \<Rightarrow> HealthMetrics \<Rightarrow> string \<Rightarrow> (error + HealthMetrics) \<times> state" where
  "update_dashboard env s health_data token =
    (case jwt_decode env token (JWT_SECRET env) of
       None \<Rightarrow> (Inl (HTTPException 403 ''Could not validate credentials'' []), s)
     | Some payload \<Rightarrow>
         (case find_user (users s) (payload_get payload ''sub'') of
            None \<Rightarrow> (Inl (HTTPException 404 ''User not found'' []), s)
          | Some user \<Rightarrow>
              (Inr health_data,
               s\<lparr>health_metrics := (health_metrics s)(id' user \<mapsto> health_data)\<rparr>)))"

section \<open>Doctors and appointments\<close>

definition read_root :: string where
  "read_root = ''Welcome to the Health API''"

definition get_doctors :: "state \<Rightarrow> Doctor list" where
  "get_doctors s = doctors s"

definition create_appointment ::
    "libs \<Rightarrow> state \<Rightarrow> Appointment \<Rightarrow> string \<Rightarrow> int \<Rightarrow>
     (error + AppointmentResponse) \<times> state"
where
  \<comment> \<open>the last argument is the reading of \<open>datetime.now()\<close>, a naive value\<close>
  "create_appointment env s appt token now =
    (case jwt_decode env token (JWT_SECRET env) of
       None \<Rightarrow> (Inl (HTTPException 403 ''Could not validate credentials'' []), s)
     | Some payload \<Rightarrow>
         (case find_user (users s) (payload_get payload ''sub'') of
            None \<Rightarrow> (Inl (HTTPException 404 ''User not found'' []), s)
          | Some user \<Rightarrow>
              (case find_doctor (doctors s) (doctor_id appt) of
                 None \<Rightarrow> (Inl (HTTPException 404 ''Doctor not found'' []), s)
               | Some doctor \<Rightarrow>
                   (case datetime_le (date appt) (Naive now) of
                      Inl e \<Rightarrow> (Inl e, s)
                    | Inr True \<Rightarrow>
                        (Inl (HTTPException 400 ''Appointment date must be in the future.'' []),
                         s)
                    | Inr False \<Rightarrow>
                        (let new_appointment =
                               \<lparr>patient_id = id' user, doctor_id = doctor_id appt,
                                date = date appt, reason = reason appt,
                                doctor_name = doc_name doctor,
                                specialty = doc_specialty doctor\<rparr>
                         in (Inr \<lparr>message = ''Appointment scheduled successfully'',
                                   appointment = new_appointment\<rparr>,
                             s\<lparr>appointments := appointments s @ [new_appointment]\<rparr>))))))"

section \<open>Symptom checker\<close>

definition SYMPTOM_CONDITIONS :: "(string \<times> string list) list" where
  "SYMPTOM_CONDITIONS =
    [(''fever'', [''Flu'', ''COVID-19'', ''Infection'']),
     (''cough'', [''Flu'', ''COVID-19'', ''Cold'']),
     (''headache'', [''Migraine'', ''Tension headache'', ''Sinusitis'']),
     (''sore throat'', [''Cold'', ''Flu'', ''Strep throat'']),
     (''fatigue'', [''Anemia'', ''Depression'', ''Chronic fatigue syndrome'']),
     (''stomach pain'', [''bug, food posioning''])]"

fun match_symptoms :: "string set \<Rightarrow> string list \<Rightarrow> string set" where
  \<comment> \<open>the \<open>for\<close> loop over \<open>symptom_check.symptoms\<close>, from the set collected so far\<close>
  "match_symptoms matched_conditions [] = matched_conditions"
| "match_symptoms matched_conditions (symptom # rest) =
     (case map_of SYMPTOM_CONDITIONS symptom of
        Some conds \<Rightarrow> match_symptoms (matched_conditions \<union> set conds) rest
      | None \<Rightarrow> match_symptoms matched_conditions rest)"

definition no_match_message :: string where
  "no_match_message = ''No matching conditions found for the provided symptoms.''"

definition check_symptoms :: "libs \<Rightarrow> state \<Rightarrow> string list \<Rightarrow> string \<Rightarrow> error + SymptomResponse"
where
  \<comment> \<open>\<open>list(matched_conditions)\<close> enumerates the set in no fixed order: the response is the set\<close>
  "check_symptoms env s symptoms token =
    (case jwt_decode env token (JWT_SECRET env) of
       None \<Rightarrow> Inl (HTTPException 403 ''Could not validate credentials'' [])
     | Some payload \<Rightarrow>
         (case find_user (users s) (payload_get payload ''sub'') of
            None \<Rightarrow> Inl (HTTPException 404 ''User  not found'' [])
          | Some user \<Rightarrow>
              (let matched_conditions = match_symptoms {} symptoms
               in if matched_conditions = {} then Inr (Message no_match_message)
                  else Inr (MatchedConditions matched_conditions))))"

section \<open>Requests and runs\<close>

text \<open>
  One constructor per route. A protected route carries the bearer token that the
  \<open>oauth2_scheme\<close> dependency took from the \<open>Authorization\<close> header.
\<close>

datatype request =
    PostRegister UserCreate bytes
  | PostToken string string
  | GetDashboard string
  | PostDashboardUpdate HealthMetrics string
  | GetRoot
  | GetDoctors
  | PostAppointments Appointment string int
  | PostSymptomChecker "string list" string

datatype response =
    RUser User
  | RToken TokenResponse
  | RMetrics HealthMetrics
  | RMessage string
  | RDoctors "Doctor list"
  | RAppointment AppointmentResponse
  | RSymptoms SymptomResponse

fun handle :: "libs \<Rightarrow> state \<Rightarrow> request \<Rightarrow> (error + response) \<times> state" where
  "handle env s (PostRegister user salt) =
     (case register_user env s user salt of (r, s') \<Rightarrow> (Inr (RUser r), s'))"
| "handle env s (PostToken u p) = (map_sum id RToken (login_for_access_token env s u p), s)"
| "handle env s (GetDashboard token) = (map_sum id RMetrics (get_dashboard env s token), s)"
| "handle env s (PostDashboardUpdate health_data token) =
     (case update_dashboard env s health_data token of (r, s') \<Rightarrow> (map_sum id RMetrics r, s'))"
| "handle env s GetRoot = (Inr (RMessage read_root), s)"
| "handle env s GetDoctors = (Inr (RDoctors (get_doctors s)), s)"
| "handle env s (PostAppointments appt token now) =
     (case create_appointment env s appt token now of
        (r, s') \<Rightarrow> (map_sum id RAppointment r, s'))"
| "handle env s (PostSymptomChecker symptoms token) =
     (map_sum id RSymptoms (check_symptoms env s symptoms token), s)"

fun run :: "libs \<Rightarrow> state \<Rightarrow> request list \<Rightarrow> state" where
  "run env s [] = s"
| "run env s (r # rs) = run env (snd (handle env s r)) rs"

fun register_all :: "libs \<Rightarrow> state \<Rightarrow> (UserCreate \<times> bytes) list \<Rightarrow> User list \<times> state" where
  \<comment> \<open>successive calls of \<open>register_user\<close>, with the responses in order\<close>
  "register_all env s [] = ([], s)"
| "register_all env s ((user, salt) # rest) =
     (case register_user env s user salt of
        (r, s') \<Rightarrow> (case register_all env s' rest of (rs, s'') \<Rightarrow> (r # rs, s'')))"

section \<open>The Auth Gate of the specification\<close>

text \<open>
  The specification describes one guard (section 4.3): verify the token, read the \<open>sub\<close>
  claim, scan the credential store for that username, and return the record found. The
  source repeats these steps in each protected handler; \<open>auth_gate\<close> is the guard as the
  specification words it, against which the handlers are compared.
\<close>

datatype AuthError = InvalidToken | UserNotFound

definition auth_gate :: "libs \<Rightarrow> state \<Rightarrow> string \<Rightarrow> AuthError + StoredUser" where
  "auth_gate env s token =
    (case jwt_decode env token (JWT_SECRET env) of
       None \<Rightarrow> Inl InvalidToken
     | Some claims \<Rightarrow>
         (case find_user (users s) (payload_get claims ''sub'') of
            None \<Rightarrow> Inl UserNotFound
          | Some user \<Rightarrow> Inr user))"

fun surfaced :: "AuthError \<Rightarrow> int" where
  "surfaced InvalidToken = 403"
| "surfaced UserNotFound = 404"

definition is_update_by :: "libs \<Rightarrow> state \<Rightarrow> request \<Rightarrow> int \<Rightarrow> bool" where
  \<comment> \<open>the request, received in state \<open>s\<close>, is a dashboard update by the user with id \<open>i\<close>\<close>
  "is_update_by env s r i =
    (case r of
       PostDashboardUpdate health_data token \<Rightarrow>
         (case auth_gate env s token of Inr user \<Rightarrow> id' user = i | Inl e \<Rightarrow> False)
     | _ \<Rightarrow> False)"

fun no_update_by :: "libs \<Rightarrow> state \<Rightarrow> request list \<Rightarrow> int \<Rightarrow> bool" where
  "no_update_by env s [] i = True"
| "no_update_by env s (r # rs) i =
     (\<not> is_update_by env s r i \<and> no_update_by env (snd (handle env s r)) rs i)"

section \<open>A reference instance of the libraries\<close>

text \<open>
  A small implementation of the four library functions on which the handlers can be
  evaluated: a token is the key, a dot and the subject; a hash is the salt, a dollar sign
  and the password, and a password verifies against a hash that ends with a dollar sign and
  that password.
\<close>

definition demo_encode :: "payload \<Rightarrow> string \<Rightarrow> string" where
  "demo_encode p k = (case p ''sub'' of Some (JStr u) \<Rightarrow> k @ ''.'' @ u | _ \<Rightarrow> [])"

definition demo_decode :: "string \<Rightarrow> string \<Rightarrow> payload option" where
  "demo_decode t k =
     (if take (length k + 1) t = k @ ''.''
      then Some [''sub'' \<mapsto> JStr (drop (length k + 1) t)] else None)"

definition demo_hashpw :: "bytes \<Rightarrow> bytes \<Rightarrow> bytes" where
  "demo_hashpw pw salt = salt @ ''$'' @ pw"

definition demo_checkpw :: "bytes \<Rightarrow> bytes \<Rightarrow> bool" where
  "demo_checkpw pw h = (drop (length h - (length pw + 1)) h = ''$'' @ pw)"

definition demo_libs :: libs where
  "demo_libs = \<lparr>jwt_encode = demo_encode, jwt_decode = demo_decode, hashpw = demo_hashpw,
     checkpw = demo_checkpw, JWT_SECRET = ''default_secret''\<rparr>"

definition alice :: UserCreate where
  "alice = \<lparr>uc_username = ''alice'', uc_password = ''pw123'', uc_role = ''patient''\<rparr>"

definition bob :: UserCreate where
  "bob = \<lparr>uc_username = ''bob'', uc_password = ''pw456'', uc_role = ''doctor''\<rparr>"

definition alice_state :: state where
  \<comment> \<open>the state after \<open>alice\<close> registered on a fresh server\<close>
  "alice_state = snd (register_user demo_libs init_state alice ''s1'')"

definition alice_token :: string where
  "alice_token = ''default_secret.alice''"

definition taken_state :: state where
  \<comment> \<open>a server on which the username \<open>alice\<close> is already registered, with another password\<close>
  "taken_state = snd (register_user demo_libs init_state
      \<lparr>uc_username = ''alice'', uc_password = ''first'', uc_role = ''doctor''\<rparr> ''s0'')"

text \<open>
  Times are counted in microseconds from 1970-01-01T00:00:00: \<open>utc_2020\<close> is
  \<open>2020-01-01T00:00:00Z\<close>, \<open>utc_2030\<close> is \<open>2030-01-01T00:00:00Z\<close>, and \<open>clock_2026\<close> is the
  reading \<open>2026-11-04T12:00:00\<close> of the server's clock.
\<close>

definition utc_2020 :: datetime where
  "utc_2020 = Aware 1577836800000000 0"

definition utc_2030 :: datetime where
  "utc_2030 = Aware 1893456000000000 0"

definition clock_2026 :: int where
  "clock_2026 = 1793793600000000"

definition sample_metrics :: HealthMetrics where
  "sample_metrics = \<lparr>sleep = 7, exercise = 30, waterIntake = 2000, sex = None\<rparr>"

definition sample_appointment :: Appointment where
  \<comment> \<open>a request body that names patient 7, with a naive date one second after \<open>clock_2026\<close>\<close>
  "sample_appointment = \<lparr>patient_id = 7, doctor_id = 2,
     date = Naive (clock_2026 + 1000000), reason = Some ''checkup''\<rparr>"


section \<open>Lookups and registration: basic facts\<close>

lemmas demo_simps = demo_libs_def demo_encode_def demo_decode_def demo_hashpw_def demo_checkpw_def
  alice_def bob_def alice_state_def alice_token_def init_state_def seed_doctors_def
  register_user_def hash_password_def verify_password_def create_access_token_def
  find_user_def find_doctor_def payload_get_def Let_def

lemma find_user_append:
  "find_user (us @ [u]) n =
     (case find_user us n of Some x \<Rightarrow> Some x
      | None \<Rightarrow> if JStr (username u) = n then Some u else None)"
  unfolding find_user_def by (induction us) auto

lemma find_user_None: "find_user us n = None \<longleftrightarrow> (\<forall>u \<in> set us. JStr (username u) \<noteq> n)"
  unfolding find_user_def by (auto simp: find_None_iff)

lemma find_user_Some_username: "find_user us n = Some u \<Longrightarrow> JStr (username u) = n \<and> u \<in> set us"
  unfolding find_user_def by (auto simp: find_Some_iff)

lemma find_user_first:
  "find_user us n = Some u \<longleftrightarrow>
     (\<exists>i < length us. us ! i = u \<and> JStr (username u) = n \<and>
        (\<forall>j < i. JStr (username (us ! j)) \<noteq> n))"
  unfolding find_user_def by (auto simp: find_Some_iff)

lemma users_register:
  "users (snd (register_user env s user salt)) =
     users s @ [\<lparr>id' = int (length (users s)) + 1, username = uc_username user,
                 role = uc_role user, password = hashpw env (uc_password user) salt\<rparr>]"
  by (simp add: register_user_def hash_password_def Let_def)

lemma register_all_ids:
  "map id' (fst (register_all env s reqs)) =
     [int (length (users s)) + 1 .. int (length (users s)) + int (length reqs)]"
proof (induction reqs arbitrary: s)
  case Nil
  show ?case by simp
next
  case (Cons q reqs)
  obtain user salt where q: "q = (user, salt)" by (cases q)
  obtain r s' where reg: "register_user env s user salt = (r, s')" by (cases "register_user env s user salt")
  have len: "length (users s') = Suc (length (users s))"
    using users_register [of env s user salt] reg by simp
  have r: "id' r = int (length (users s)) + 1"
    using reg by (simp add: register_user_def Let_def) (auto)
  have "map id' (fst (register_all env s (q # reqs))) = id' r # map id' (fst (register_all env s' reqs))"
    using q reg by (simp split: prod.splits)
  also have "\<dots> = (int (length (users s)) + 1) # [int (length (users s)) + 1 + 1 .. int (length (users s)) + int (length (q # reqs))]"
    using Cons.IH [of s'] len r by (simp add: add.commute add.left_commute)
  also have "\<dots> = [int (length (users s)) + 1 .. int (length (users s)) + int (length (q # reqs))]"
    by (rule upto_rec1 [symmetric]) simp
  finally show ?case .
qed

section \<open>The handlers in terms of the guard\<close>

lemma update_dashboard_gate:
  "update_dashboard env s h token =
     (case auth_gate env s token of
        Inl InvalidToken \<Rightarrow> (Inl (HTTPException 403 ''Could not validate credentials'' []), s)
      | Inl UserNotFound \<Rightarrow> (Inl (HTTPException 404 ''User not found'' []), s)
      | Inr user \<Rightarrow> (Inr h, s\<lparr>health_metrics := (health_metrics s)(id' user \<mapsto> h)\<rparr>))"
  by (simp add: update_dashboard_def auth_gate_def split: option.splits)

lemma get_dashboard_gate:
  "get_dashboard env s token =
     (case auth_gate env s token of
        Inl InvalidToken \<Rightarrow> Inl (HTTPException 403 ''Could not validate credentials'' [])
      | Inl UserNotFound \<Rightarrow> Inl (HTTPException 404 ''User not found'' [])
      | Inr user \<Rightarrow> Inr (case health_metrics s (id' user) of
                           None \<Rightarrow> default_metrics | Some m \<Rightarrow> m))"
  by (simp add: get_dashboard_def auth_gate_def split: option.splits)

lemma check_symptoms_gate:
  "check_symptoms env s symptoms token =
     (case auth_gate env s token of
        Inl InvalidToken \<Rightarrow> Inl (HTTPException 403 ''Could not validate credentials'' [])
      | Inl UserNotFound \<Rightarrow> Inl (HTTPException 404 ''User  not found'' [])
      | Inr user \<Rightarrow>
          (if match_symptoms {} symptoms = {} then Inr (Message no_match_message)
           else Inr (MatchedConditions (match_symptoms {} symptoms))))"
  by (simp add: check_symptoms_def auth_gate_def Let_def split: option.splits)

lemma create_appointment_gate:
  "create_appointment env s appt token now =
     (case auth_gate env s token of
        Inl InvalidToken \<Rightarrow> (Inl (HTTPException 403 ''Could not validate credentials'' []), s)
      | Inl UserNotFound \<Rightarrow> (Inl (HTTPException 404 ''User not found'' []), s)
      | Inr user \<Rightarrow>
         (case find_doctor (doctors s) (doctor_id appt) of
            None \<Rightarrow> (Inl (HTTPException 404 ''Doctor not found'' []), s)
          | Some doctor \<Rightarrow>
             (case datetime_le (date appt) (Naive now) of
                Inl e \<Rightarrow> (Inl e, s)
              | Inr True \<Rightarrow>
                  (Inl (HTTPException 400 ''Appointment date must be in the future.'' []), s)
              | Inr False \<Rightarrow>
                  (Inr \<lparr>message = ''Appointment scheduled successfully'',
                        appointment =
                          \<lparr>patient_id = id' user, doctor_id = doctor_id appt,
                           date = date appt, reason = reason appt,
                           doctor_name = doc_name doctor,
                           specialty = doc_specialty doctor\<rparr>\<rparr>,
                   s\<lparr>appointments := appointments s @
                        [\<lparr>patient_id = id' user, doctor_id = doctor_id appt,
                          date = date appt, reason = reason appt,
                          doctor_name = doc_name doctor,
                          specialty = doc_specialty doctor\<rparr>]\<rparr>))))"
  by (simp add: create_appointment_def auth_gate_def Let_def
      split: option.splits sum.splits bool.splits)

lemma datetime_le_error: "datetime_le a b = Inl e \<Longrightarrow> e = TypeError"
  by (cases a; cases b) auto

lemma create_appointment_naive_date:
  assumes "auth_gate env s token = Inr user"
    and "find_doctor (doctors s) (doctor_id appt) = Some doctor"
    and "date appt = Naive d"
  shows "d \<le> now \<longrightarrow> create_appointment env s appt token now =
           (Inl (HTTPException 400 ''Appointment date must be in the future.'' []), s)"
    and "now < d \<longrightarrow> (\<exists>r s'. create_appointment env s appt token now = (Inr r, s')
           \<and> appointments s' = appointments s @ [appointment r]
           \<and> doctor_name (appointment r) = doc_name doctor
           \<and> specialty (appointment r) = doc_specialty doctor)"
  using assms by (auto simp: create_appointment_gate)

lemma create_appointment_unknown_doctor:
  assumes "auth_gate env s token = Inr user"
    and "find_doctor (doctors s) (doctor_id appt) = None"
  shows "create_appointment env s appt token now = (Inl (HTTPException 404 ''Doctor not found'' []), s)"
  using assms by (simp add: create_appointment_gate)

section \<open>Runs: the store only grows, metrics change only by updates\<close>

lemma find_user_prefix: "find_user us n = Some u \<Longrightarrow> find_user (us @ ys) n = Some u"
  unfolding find_user_def by (induction us) (auto split: if_splits)

lemma handle_users: "\<exists>ys. users (snd (handle env s r)) = users s @ ys"
proof (cases r)
  case (PostRegister user salt)
  then show ?thesis using users_register [of env s user salt] by (auto split: prod.splits)
next
  case (PostDashboardUpdate h t)
  then show ?thesis
    by (simp add: update_dashboard_gate split: prod.splits sum.splits AuthError.splits)
next
  case (PostAppointments a t n)
  then show ?thesis
    by (simp add: create_appointment_gate
        split: prod.splits sum.splits AuthError.splits option.splits bool.splits)
qed simp_all

lemma handle_gate: "auth_gate env s token = Inr user \<Longrightarrow> auth_gate env (snd (handle env s r)) token = Inr user"
proof -
  assume a: "auth_gate env s token = Inr user"
  obtain ys where ys: "users (snd (handle env s r)) = users s @ ys"
    using handle_users by blast
  show ?thesis
    using a find_user_prefix [of "users s" _ user ys] unfolding auth_gate_def ys
    by (auto split: option.splits)
qed

lemma run_gate: "auth_gate env s token = Inr user \<Longrightarrow> auth_gate env (run env s rs) token = Inr user"
  by (induction rs arbitrary: s) (simp_all add: handle_gate)

lemma handle_keeps_metrics:
  "\<not> is_update_by env s r i \<Longrightarrow> health_metrics (snd (handle env s r)) i = health_metrics s i"
proof (cases r)
  case (PostRegister user salt)
  then show ?thesis by (simp add: register_user_def Let_def)
next
  case (PostDashboardUpdate h t)
  assume "\<not> is_update_by env s r i"
  with PostDashboardUpdate show ?thesis
    by (auto simp: is_update_by_def update_dashboard_gate split: prod.splits sum.splits AuthError.splits)
next
  case (PostAppointments a t n)
  then show ?thesis
    by (simp add: create_appointment_gate
        split: prod.splits sum.splits AuthError.splits option.splits bool.splits)
qed simp_all

lemma run_keeps_metrics:
  "no_update_by env s rs i \<Longrightarrow> health_metrics (run env s rs) i = health_metrics s i"
  by (induction rs arbitrary: s) (simp_all add: handle_keeps_metrics)

section \<open>The symptom loop\<close>

lemma match_symptoms_union:
  "match_symptoms M symptoms =
     M \<union> (\<Union>symptom \<in> set symptoms.
            case map_of SYMPTOM_CONDITIONS symptom of None \<Rightarrow> {} | Some conds \<Rightarrow> set conds)"
  by (induction symptoms arbitrary: M) (auto split: option.splits)

lemma SYMPTOM_CONDITIONS_nonempty: "map_of SYMPTOM_CONDITIONS symptom = Some conds \<Longrightarrow> conds \<noteq> []"
  by (auto simp: SYMPTOM_CONDITIONS_def split: if_splits)

section \<open>The reference instance, evaluated\<close>

lemma alice_state_eq:
  "alice_state = \<lparr>users = [\<lparr>id' = 1, username = ''alice'', role = ''patient'',
                              password = ''s1$pw123''\<rparr>],
                   health_metrics = Map.empty, doctors = seed_doctors, appointments = []\<rparr>"
  by (simp add: alice_state_def register_user_def init_state_def alice_def hash_password_def
      demo_libs_def demo_hashpw_def)

lemma alice_gate:
  "auth_gate demo_libs alice_state alice_token =
     Inr \<lparr>id' = 1, username = ''alice'', role = ''patient'', password = ''s1$pw123''\<rparr>"
  by (simp add: alice_state_eq auth_gate_def demo_libs_def demo_decode_def alice_token_def
      find_user_def payload_get_def)

lemma garbage_decode: "jwt_decode demo_libs ''garbage'' (JWT_SECRET demo_libs) = None"
  by (simp add: demo_libs_def demo_decode_def)

lemma bob_decode:
  "jwt_decode demo_libs ''default_secret.bob'' (JWT_SECRET demo_libs) = Some [''sub'' \<mapsto> JStr ''bob'']"
  by (simp add: demo_libs_def demo_decode_def)

section \<open>Claims\<close>

text \<open>
  Claim C1, as the code has it. \<open>register_user\<close> does not check the username, and both the
  login and the guard take the first stored record with a username. Assume that the
  libraries verify the password against the hash they made of it and decode the token they
  encoded for the username, and that no earlier record has the username or the first
  earlier one has a hash against which the password verifies and the same role. Then
  registering and logging in with the same credentials yields the token of the single claim
  \<open>sub\<close> = the username, and the guard, as \<open>get_dashboard\<close> runs it, resolves this token to the
  first stored record with that username (no record before it in \<open>users\<close> has the username);
  this record has exactly that username and role, and when the username is new it is the
  record just registered, the last of the store.
\<close>

theorem register_login_gate_roundtrip:
  assumes bcrypt: "checkpw env (uc_password user) (hashpw env (uc_password user) salt)"
    and jwt: "jwt_decode env (jwt_encode env [''sub'' \<mapsto> JStr (uc_username user)] (JWT_SECRET env))
                (JWT_SECRET env) = Some [''sub'' \<mapsto> JStr (uc_username user)]"
    and earlier: "\<forall>u0. find_user (users s) (JStr (uc_username user)) = Some u0 \<longrightarrow>
                checkpw env (uc_password user) (password u0) \<and> role u0 = uc_role user"
  shows "\<exists>tok u i. login_for_access_token env (snd (register_user env s user salt))
                   (uc_username user) (uc_password user) =
                 Inr \<lparr>access_token = tok, token_type = ''bearer''\<rparr>
           \<and> tok = jwt_encode env [''sub'' \<mapsto> JStr (uc_username user)] (JWT_SECRET env)
           \<and> auth_gate env (snd (register_user env s user salt)) tok = Inr u
           \<and> find_user (users (snd (register_user env s user salt)))
                 (JStr (uc_username user)) = Some u
           \<and> i < length (users (snd (register_user env s user salt)))
           \<and> users (snd (register_user env s user salt)) ! i = u
           \<and> (\<forall>j < i. username (users (snd (register_user env s user salt)) ! j) \<noteq>
                  uc_username user)
           \<and> username u = uc_username user \<and> role u = uc_role user
           \<and> (find_user (users s) (JStr (uc_username user)) = None \<longrightarrow>
                u = \<lparr>id' = id' (fst (register_user env s user salt)),
                     username = uc_username user, role = uc_role user,
                     password = hashpw env (uc_password user) salt\<rparr>
                \<and> i = length (users s))
           \<and> get_dashboard env (snd (register_user env s user salt)) tok =
                 Inr (case health_metrics (snd (register_user env s user salt)) (id' u) of
                        None \<Rightarrow> default_metrics | Some m \<Rightarrow> m)"
proof -
  let ?s' = "snd (register_user env s user salt)"
  let ?new = "\<lparr>id' = int (length (users s)) + 1, username = uc_username user,
                 role = uc_role user, password = hashpw env (uc_password user) salt\<rparr>"
  let ?tok = "jwt_encode env [''sub'' \<mapsto> JStr (uc_username user)] (JWT_SECRET env)"
  have us: "users ?s' = users s @ [?new]" by (rule users_register)
  obtain u where u: "find_user (users ?s') (JStr (uc_username user)) = Some u"
      and uname: "username u = uc_username user"
      and pw: "checkpw env (uc_password user) (password u)"
      and ro: "role u = uc_role user"
      and fresh: "find_user (users s) (JStr (uc_username user)) = None \<longrightarrow> u = ?new"
  proof (cases "find_user (users s) (JStr (uc_username user))")
    case None
    then have "find_user (users ?s') (JStr (uc_username user)) = Some ?new"
      unfolding us by (simp add: find_user_append)
    then show ?thesis using that [of ?new] bcrypt by simp
  next
    case (Some u0)
    then have "find_user (users ?s') (JStr (uc_username user)) = Some u0"
      unfolding us by (simp add: find_user_append)
    then show ?thesis
      using that [of u0] earlier Some find_user_Some_username [OF Some] by simp
  qed
  obtain i where i: "i < length (users ?s')" "users ?s' ! i = u"
      and first: "\<forall>j < i. username (users ?s' ! j) \<noteq> uc_username user"
    using u by (auto simp: find_user_first)
  have login: "login_for_access_token env ?s' (uc_username user) (uc_password user) =
                 Inr \<lparr>access_token = ?tok, token_type = ''bearer''\<rparr>"
    using u uname pw
    by (simp add: login_for_access_token_def verify_password_def create_access_token_def)
  have gate: "auth_gate env ?s' ?tok = Inr u"
    using u jwt by (simp add: auth_gate_def payload_get_def)
  have idr: "id' (fst (register_user env s user salt)) = int (length (users s)) + 1"
    by (simp add: register_user_def Let_def)
  have dash: "get_dashboard env ?s' ?tok =
      Inr (case health_metrics ?s' (id' u) of None \<Rightarrow> default_metrics | Some m \<Rightarrow> m)"
    using gate by (simp add: get_dashboard_gate)
  have new: "u = \<lparr>id' = id' (fst (register_user env s user salt)),
                     username = uc_username user, role = uc_role user,
                     password = hashpw env (uc_password user) salt\<rparr>
             \<and> i = length (users s)"
    if none: "find_user (users s) (JStr (uc_username user)) = None"
  proof
    show "u = \<lparr>id' = id' (fst (register_user env s user salt)),
                     username = uc_username user, role = uc_role user,
                     password = hashpw env (uc_password user) salt\<rparr>"
      using fresh none idr by simp
    have no: "\<forall>x \<in> set (users s). username x \<noteq> uc_username user"
      using none by (simp add: find_user_None)
    have "\<not> i < length (users s)"
    proof
      assume lt: "i < length (users s)"
      then have "users ?s' ! i = users s ! i" unfolding us by (simp add: nth_append)
      then have "username (users s ! i) = uc_username user" using i(2) uname by simp
      then show False using no lt nth_mem by blast
    qed
    then show "i = length (users s)" using i(1) unfolding us by simp
  qed
  show ?thesis
  proof (intro exI conjI)
    show "login_for_access_token env ?s' (uc_username user) (uc_password user) =
            Inr \<lparr>access_token = ?tok, token_type = ''bearer''\<rparr>" by (rule login)
    show "?tok = ?tok" by (rule refl)
    show "auth_gate env ?s' ?tok = Inr u" by (rule gate)
    show "find_user (users ?s') (JStr (uc_username user)) = Some u" by (rule u)
    show "i < length (users ?s')" by (rule i(1))
    show "users ?s' ! i = u" by (rule i(2))
    show "\<forall>j < i. username (users ?s' ! j) \<noteq> uc_username user" by (rule first)
    show "username u = uc_username user" by (rule uname)
    show "role u = uc_role user" by (rule ro)
    show "find_user (users s) (JStr (uc_username user)) = None \<longrightarrow>
            u = \<lparr>id' = id' (fst (register_user env s user salt)),
                     username = uc_username user, role = uc_role user,
                     password = hashpw env (uc_password user) salt\<rparr>
            \<and> i = length (users s)" using new by blast
    show "get_dashboard env ?s' ?tok =
      Inr (case health_metrics ?s' (id' u) of None \<Rightarrow> default_metrics | Some m \<Rightarrow> m)"
      by (rule dash)
  qed
qed

theorem register_login_gate_roundtrip_witness:
  "(\<exists>tok u. login_for_access_token demo_libs (snd (register_user demo_libs init_state alice ''s1''))
               ''alice'' ''pw123'' = Inr \<lparr>access_token = tok, token_type = ''bearer''\<rparr>
     \<and> auth_gate demo_libs (snd (register_user demo_libs init_state alice ''s1'')) tok = Inr u
     \<and> u = \<lparr>id' = 1, username = ''alice'', role = ''patient'', password = ''s1$pw123''\<rparr>)
   \<and> (\<exists>tok u. login_for_access_token demo_libs (snd (register_user demo_libs alice_state alice ''s2''))
               ''alice'' ''pw123'' = Inr \<lparr>access_token = tok, token_type = ''bearer''\<rparr>
     \<and> auth_gate demo_libs (snd (register_user demo_libs alice_state alice ''s2'')) tok = Inr u
     \<and> find_user (users (snd (register_user demo_libs alice_state alice ''s2''))) (JStr ''alice'')
           = Some u
     \<and> username u = ''alice'' \<and> role u = ''patient'' \<and> id' u = 1)"
proof -
  have 1: "checkpw demo_libs (uc_password alice) (hashpw demo_libs (uc_password alice) salt)" for salt
    by (simp add: demo_libs_def demo_checkpw_def demo_hashpw_def alice_def)
  have 2: "jwt_decode demo_libs
             (jwt_encode demo_libs [''sub'' \<mapsto> JStr (uc_username alice)] (JWT_SECRET demo_libs))
             (JWT_SECRET demo_libs) = Some [''sub'' \<mapsto> JStr (uc_username alice)]"
    by (simp add: demo_libs_def demo_decode_def demo_encode_def alice_def)
  have 3: "\<forall>u0. find_user (users init_state) (JStr (uc_username alice)) = Some u0 \<longrightarrow>
                checkpw demo_libs (uc_password alice) (password u0) \<and> role u0 = uc_role alice"
    by (simp add: init_state_def find_user_def)
  have 4: "\<forall>u0. find_user (users alice_state) (JStr (uc_username alice)) = Some u0 \<longrightarrow>
                checkpw demo_libs (uc_password alice) (password u0) \<and> role u0 = uc_role alice"
    by (auto simp: alice_state_eq find_user_def alice_def demo_libs_def demo_checkpw_def)
  have none: "find_user (users init_state) (JStr (uc_username alice)) = None"
    by (simp add: init_state_def find_user_def)
  have h: "hashpw demo_libs (uc_password alice) ''s1'' = ''s1$pw123''"
    by (simp add: demo_libs_def demo_hashpw_def alice_def)
  have r: "id' (fst (register_user demo_libs init_state alice ''s1'')) = 1"
    by (simp add: register_user_def Let_def init_state_def)
  have a: "\<exists>tok u. login_for_access_token demo_libs (snd (register_user demo_libs init_state alice ''s1''))
               ''alice'' ''pw123'' = Inr \<lparr>access_token = tok, token_type = ''bearer''\<rparr>
     \<and> auth_gate demo_libs (snd (register_user demo_libs init_state alice ''s1'')) tok = Inr u
     \<and> u = \<lparr>id' = 1, username = ''alice'', role = ''patient'', password = ''s1$pw123''\<rparr>"
    using register_login_gate_roundtrip [of demo_libs alice "''s1''" init_state, OF 1 2 3] none h r
    by (auto simp: alice_def)
  have f: "find_user (users (snd (register_user demo_libs alice_state alice ''s2''))) (JStr ''alice'')
        = Some u \<Longrightarrow> id' u = 1" for u
    by (auto simp: users_register alice_state_eq find_user_def alice_def)
  have b: "\<exists>tok u. login_for_access_token demo_libs (snd (register_user demo_libs alice_state alice ''s2''))
               ''alice'' ''pw123'' = Inr \<lparr>access_token = tok, token_type = ''bearer''\<rparr>
     \<and> auth_gate demo_libs (snd (register_user demo_libs alice_state alice ''s2'')) tok = Inr u
     \<and> find_user (users (snd (register_user demo_libs alice_state alice ''s2''))) (JStr ''alice'')
           = Some u
     \<and> username u = ''alice'' \<and> role u = ''patient'' \<and> id' u = 1"
    using register_login_gate_roundtrip [of demo_libs alice "''s2''" alice_state, OF 1 2 4] f
    by (auto simp: alice_def)
  show ?thesis using a b by (rule conjI)
qed

text \<open>
  Without the proviso the round trip fails: when \<open>alice\<close> is already registered with another
  password, registering \<open>alice\<close> again and logging in with the new password is refused,
  although the libraries behave at these inputs.
\<close>

theorem register_login_taken_username_fails:
  "checkpw demo_libs ''pw123'' (hashpw demo_libs ''pw123'' ''s1'')
   \<and> jwt_decode demo_libs (jwt_encode demo_libs [''sub'' \<mapsto> JStr ''alice''] (JWT_SECRET demo_libs))
        (JWT_SECRET demo_libs) = Some [''sub'' \<mapsto> JStr ''alice'']
   \<and> login_for_access_token demo_libs (snd (register_user demo_libs taken_state alice ''s1''))
        ''alice'' ''pw123'' = Inl invalid_credentials"
  by (simp add: taken_state_def login_for_access_token_def demo_simps)

text \<open>
  Claim C2. At each of the four protected routes: when the token does not verify, the
  request fails with status 403 and detail "Could not validate credentials"; when it
  verifies and no stored user has the username of its \<open>sub\<close> claim, the request fails with
  status 404 (detail "User not found"; \<open>check_symptoms\<close> spells it with two spaces). The
  four routes take the same decision: each fails with the status of the guard's error
  exactly when the guard of the specification fails, and none raises a guard error when the
  guard returns a user.
\<close>

theorem protected_endpoints_share_auth_check:
  "(jwt_decode env token (JWT_SECRET env) = None \<longrightarrow>
      auth_gate env s token = Inl InvalidToken
      \<and> get_dashboard env s token = Inl (HTTPException 403 ''Could not validate credentials'' [])
      \<and> fst (update_dashboard env s health_data token) =
          Inl (HTTPException 403 ''Could not validate credentials'' [])
      \<and> fst (create_appointment env s appt token now) =
          Inl (HTTPException 403 ''Could not validate credentials'' [])
      \<and> check_symptoms env s symptoms token =
          Inl (HTTPException 403 ''Could not validate credentials'' []))
   \<and> (jwt_decode env token (JWT_SECRET env) = Some claims \<and>
       (\<forall>u \<in> set (users s). JStr (username u) \<noteq> payload_get claims ''sub'') \<longrightarrow>
      auth_gate env s token = Inl UserNotFound
      \<and> get_dashboard env s token = Inl (HTTPException 404 ''User not found'' [])
      \<and> fst (update_dashboard env s health_data token) =
          Inl (HTTPException 404 ''User not found'' [])
      \<and> fst (create_appointment env s appt token now) =
          Inl (HTTPException 404 ''User not found'' [])
      \<and> check_symptoms env s symptoms token = Inl (HTTPException 404 ''User  not found'' []))
   \<and> (\<forall>ae. auth_gate env s token = Inl ae \<longrightarrow>
        (\<exists>e1 e2 e3 e4.
           get_dashboard env s token = Inl e1
           \<and> fst (update_dashboard env s health_data token) = Inl e2
           \<and> fst (create_appointment env s appt token now) = Inl e3
           \<and> check_symptoms env s symptoms token = Inl e4
           \<and> status_code e1 = surfaced ae \<and> status_code e2 = surfaced ae
           \<and> status_code e3 = surfaced ae \<and> status_code e4 = surfaced ae))
   \<and> (\<forall>user. auth_gate env s token = Inr user \<longrightarrow>
        get_dashboard env s token \<noteq> Inl (HTTPException 403 ''Could not validate credentials'' [])
        \<and> (\<exists>m. get_dashboard env s token = Inr m)
        \<and> (\<exists>s'. update_dashboard env s health_data token = (Inr health_data, s'))
        \<and> (\<exists>r. check_symptoms env s symptoms token = Inr r)
        \<and> fst (create_appointment env s appt token now) \<noteq>
            Inl (HTTPException 403 ''Could not validate credentials'' [])
        \<and> fst (create_appointment env s appt token now) \<noteq>
            Inl (HTTPException 404 ''User not found'' []))"
proof -
  have g1: "jwt_decode env token (JWT_SECRET env) = None \<Longrightarrow> auth_gate env s token = Inl InvalidToken"
    by (simp add: auth_gate_def)
  have g2: "auth_gate env s token = Inl UserNotFound"
    if "jwt_decode env token (JWT_SECRET env) = Some claims"
       "\<forall>u \<in> set (users s). JStr (username u) \<noteq> payload_get claims ''sub''"
  proof -
    have "find_user (users s) (payload_get claims ''sub'') = None"
      using that(2) by (simp add: find_user_None)
    then show ?thesis using that(1) by (simp add: auth_gate_def)
  qed
  have p1: "auth_gate env s token = Inl InvalidToken \<Longrightarrow>
      get_dashboard env s token = Inl (HTTPException 403 ''Could not validate credentials'' [])
      \<and> fst (update_dashboard env s health_data token) =
          Inl (HTTPException 403 ''Could not validate credentials'' [])
      \<and> fst (create_appointment env s appt token now) =
          Inl (HTTPException 403 ''Could not validate credentials'' [])
      \<and> check_symptoms env s symptoms token =
          Inl (HTTPException 403 ''Could not validate credentials'' [])"
    by (simp add: get_dashboard_gate update_dashboard_gate create_appointment_gate check_symptoms_gate)
  have p2: "auth_gate env s token = Inl UserNotFound \<Longrightarrow>
      get_dashboard env s token = Inl (HTTPException 404 ''User not found'' [])
      \<and> fst (update_dashboard env s health_data token) =
          Inl (HTTPException 404 ''User not found'' [])
      \<and> fst (create_appointment env s appt token now) =
          Inl (HTTPException 404 ''User not found'' [])
      \<and> check_symptoms env s symptoms token = Inl (HTTPException 404 ''User  not found'' [])"
    by (simp add: get_dashboard_gate update_dashboard_gate create_appointment_gate check_symptoms_gate)
  have p3: "\<exists>e1 e2 e3 e4.
           get_dashboard env s token = Inl e1
           \<and> fst (update_dashboard env s health_data token) = Inl e2
           \<and> fst (create_appointment env s appt token now) = Inl e3
           \<and> check_symptoms env s symptoms token = Inl e4
           \<and> status_code e1 = surfaced ae \<and> status_code e2 = surfaced ae
           \<and> status_code e3 = surfaced ae \<and> status_code e4 = surfaced ae"
    if "auth_gate env s token = Inl ae" for ae
    using that p1 p2 by (cases ae) simp_all
  have p4: "get_dashboard env s token \<noteq> Inl (HTTPException 403 ''Could not validate credentials'' [])
        \<and> (\<exists>m. get_dashboard env s token = Inr m)
        \<and> (\<exists>s'. update_dashboard env s health_data token = (Inr health_data, s'))
        \<and> (\<exists>r. check_symptoms env s symptoms token = Inr r)
        \<and> fst (create_appointment env s appt token now) \<noteq>
            Inl (HTTPException 403 ''Could not validate credentials'' [])
        \<and> fst (create_appointment env s appt token now) \<noteq>
            Inl (HTTPException 404 ''User not found'' [])"
    if "auth_gate env s token = Inr user" for user
    using that
    by (auto simp: get_dashboard_gate update_dashboard_gate create_appointment_gate
          check_symptoms_gate
        split: option.splits sum.splits bool.splits dest: datetime_le_error)
  show ?thesis using g1 g2 p1 p2 p3 p4 by blast
qed

theorem protected_endpoints_share_auth_check_witness:
  "get_dashboard demo_libs alice_state ''garbage'' =
     Inl (HTTPException 403 ''Could not validate credentials'' [])
   \<and> fst (create_appointment demo_libs alice_state sample_appointment ''default_secret.bob''
        clock_2026) = Inl (HTTPException 404 ''User not found'' [])
   \<and> check_symptoms demo_libs alice_state [''fever''] ''default_secret.bob'' =
        Inl (HTTPException 404 ''User  not found'' [])"
proof -
  have nobody: "\<forall>u \<in> set (users alice_state).
      JStr (username u) \<noteq> payload_get [''sub'' \<mapsto> JStr ''bob''] ''sub''"
    by (simp add: alice_state_eq payload_get_def)
  show ?thesis
    using protected_endpoints_share_auth_check [where env = demo_libs and s = alice_state
        and token = "''garbage''"] garbage_decode
      protected_endpoints_share_auth_check [where env = demo_libs and s = alice_state
        and token = "''default_secret.bob''" and claims = "[''sub'' \<mapsto> JStr ''bob'']"
        and appt = sample_appointment and now = clock_2026 and symptoms = "[''fever'']"]
      bob_decode nobody
    by blast
qed

text \<open>
  Claim C3. A login fails with the error 401 "Incorrect username or password" exactly when
  no stored user has the given username, or the first stored user with that username has a
  hash against which the password does not verify. In every other case the login returns
  the token that signs the single claim \<open>sub\<close> = that username, with token type
  \<open>bearer\<close>.
\<close>

theorem login_invalid_credentials_iff:
  "(login_for_access_token env s u p = Inl invalid_credentials \<longleftrightarrow>
      (\<forall>x \<in> set (users s). username x \<noteq> u) \<or>
      (\<exists>i < length (users s). username (users s ! i) = u \<and>
          (\<forall>j < i. username (users s ! j) \<noteq> u) \<and>
          \<not> checkpw env p (password (users s ! i))))
   \<and> (login_for_access_token env s u p \<noteq> Inl invalid_credentials \<longrightarrow>
        login_for_access_token env s u p =
          Inr \<lparr>access_token = jwt_encode env [''sub'' \<mapsto> JStr u] (JWT_SECRET env),
               token_type = ''bearer''\<rparr>
        \<and> dom [''sub'' \<mapsto> JStr u] = {''sub''})
   \<and> status_code invalid_credentials = 401
   \<and> detail invalid_credentials = ''Incorrect username or password''"
proof (cases "find_user (users s) (JStr u)")
  case None
  then have "\<forall>x \<in> set (users s). username x \<noteq> u"
    by (simp add: find_user_None)
  then show ?thesis
    using None by (simp add: login_for_access_token_def invalid_credentials_def)
next
  case (Some usr)
  then obtain i where i: "i < length (users s)" "users s ! i = usr" "username usr = u"
      "\<forall>j < i. username (users s ! j) \<noteq> u"
    by (auto simp: find_user_first)
  have ex: "\<not> (\<forall>x \<in> set (users s). username x \<noteq> u)"
    using i by (metis nth_mem)
  have uniq: "k = i" if "k < length (users s)" "username (users s ! k) = u"
      "\<forall>j < k. username (users s ! j) \<noteq> u" for k
    using that i by (metis linorder_neqE_nat)
  have fail_iff: "(\<exists>k < length (users s). username (users s ! k) = u \<and>
          (\<forall>j < k. username (users s ! j) \<noteq> u) \<and>
          \<not> checkpw env p (password (users s ! k))) \<longleftrightarrow> \<not> checkpw env p (password usr)"
    using i uniq by blast
  show ?thesis
    using Some ex i(3) unfolding fail_iff
    by (simp add: login_for_access_token_def invalid_credentials_def verify_password_def
        create_access_token_def)
qed

theorem login_invalid_credentials_iff_witness:
  "login_for_access_token demo_libs alice_state ''alice'' ''wrong'' = Inl invalid_credentials
   \<and> login_for_access_token demo_libs alice_state ''carol'' ''pw123'' = Inl invalid_credentials"
proof -
  have bad: "\<exists>i < length (users alice_state). username (users alice_state ! i) = ''alice'' \<and>
          (\<forall>j < i. username (users alice_state ! j) \<noteq> ''alice'') \<and>
          \<not> checkpw demo_libs ''wrong'' (password (users alice_state ! i))"
    by (rule exI [of _ 0]) (simp add: alice_state_eq demo_libs_def demo_checkpw_def)
  have absent: "\<forall>x \<in> set (users alice_state). username x \<noteq> ''carol''"
    by (simp add: alice_state_eq)
  show ?thesis
    using login_invalid_credentials_iff [of demo_libs alice_state "''alice''" "''wrong''"] bad
      login_invalid_credentials_iff [of demo_libs alice_state "''carol''" "''pw123''"] absent
    by blast
qed

text \<open>
  Claim C4. \<open>register_user\<close> has no error path and no check of the username: for every
  request and every store it returns the response with \<open>id\<close> equal to the number of stored
  users plus one, the username and the role (the response type \<open>User\<close> has no password
  field), and appends to \<open>users\<close> the record with these three fields and, as
  \<open>password\<close>, the value of the library's \<open>hashpw\<close> on the password and the fresh salt. Successive registrations on a fresh server receive the ids 1, 2, 3, ...; alice
  receives 1 and bob receives 2.
\<close>

theorem register_user_assigns_next_id:
  "register_user env s user salt =
     (\<lparr>id' = int (length (users s)) + 1, username = uc_username user, role = uc_role user\<rparr>,
      s\<lparr>users := users s @
           [\<lparr>id' = int (length (users s)) + 1, username = uc_username user,
             role = uc_role user,
             password = hashpw env (uc_password user) salt\<rparr>]\<rparr>)
   \<and> map id' (fst (register_all env init_state reqs)) = [1 .. int (length reqs)]
   \<and> map id' (fst (register_all demo_libs init_state [(alice, ''s1''), (bob, ''s2'')])) = [1, 2]"
proof -
  have a: "map id' (fst (register_all env init_state reqs)) = [1 .. int (length reqs)]" for env reqs
    using register_all_ids [of env init_state reqs] by (simp add: init_state_def)
  have b: "[1 .. int (length [(alice, ''s1''), (bob, ''s2'')])] = [1, 2]"
    by (simp add: upto_rec1)
  show ?thesis
    using a [of env reqs] a [of demo_libs "[(alice, ''s1''), (bob, ''s2'')]"] b
    by (simp add: register_user_def hash_password_def Let_def)
qed

text \<open>
  Claim C5 fails on dates that carry a UTC offset. \<open>create_appointment\<close> compares the
  requested date with the naive \<open>datetime.now()\<close>; for an aware date the comparison raises
  \<open>TypeError\<close>, which no handler catches. For an authenticated user and the seeded doctor 1,
  the request with the date \<open>2020-01-01T00:00:00Z\<close>, long past, is answered with status 500
  and not 400, and the request with the date \<open>2030-01-01T00:00:00Z\<close>, in the future, is
  answered with status 500 and stores nothing. (For naive dates the handler does what the
  claim says: \<open>create_appointment_naive_date\<close>, \<open>create_appointment_unknown_doctor\<close>.)
\<close>

theorem aware_date_raises_type_error:
  "create_appointment demo_libs alice_state
      \<lparr>patient_id = 1, doctor_id = 1, date = utc_2020, reason = None\<rparr> alice_token clock_2026
     = (Inl TypeError, alice_state)
   \<and> create_appointment demo_libs alice_state
      \<lparr>patient_id = 1, doctor_id = 1, date = utc_2030, reason = None\<rparr> alice_token clock_2026
     = (Inl TypeError, alice_state)
   \<and> status_code TypeError = 500"
  by (simp add: create_appointment_def utc_2020_def utc_2030_def clock_2026_def demo_simps)

text \<open>
  Claim C6. Whatever the route, a request that ends in an error leaves the users, the health
  metrics, the doctors and the appointments as they were before the request; so do, in
  particular, a failing dashboard update and a failing appointment request.
\<close>

theorem failed_request_leaves_state:
  "(fst (handle env s req) = Inl e \<longrightarrow> snd (handle env s req) = s)
   \<and> (fst (update_dashboard env s health_data token) = Inl e \<longrightarrow>
        snd (update_dashboard env s health_data token) = s)
   \<and> (fst (create_appointment env s appt token now) = Inl e \<longrightarrow>
        snd (create_appointment env s appt token now) = s)"
proof -
  have upd: "fst (update_dashboard env s h t) = Inl e \<longrightarrow> snd (update_dashboard env s h t) = s"
    for h t
    by (simp add: update_dashboard_gate split: sum.splits AuthError.splits)
  have app: "fst (create_appointment env s a t n) = Inl e \<longrightarrow>
      snd (create_appointment env s a t n) = s" for a t n
    by (simp add: create_appointment_gate split: sum.splits AuthError.splits option.splits bool.splits)
  have "fst (handle env s req) = Inl e \<longrightarrow> snd (handle env s req) = s"
  proof (cases req)
    case (PostRegister user salt)
    then show ?thesis by (simp split: prod.splits)
  next
    case (PostDashboardUpdate h t)
    then show ?thesis
      using upd [of h t] by (cases "update_dashboard env s h t") (auto simp: map_sum_def split: sum.splits)
  next
    case (PostAppointments a t n)
    then show ?thesis
      using app [of a t n] by (cases "create_appointment env s a t n") (auto simp: map_sum_def split: sum.splits)
  qed simp_all
  then show ?thesis using upd app by blast
qed

theorem failed_request_leaves_state_witness:
  "fst (handle demo_libs alice_state (PostDashboardUpdate sample_metrics ''garbage'')) =
     Inl (HTTPException 403 ''Could not validate credentials'' [])
   \<and> snd (handle demo_libs alice_state (PostDashboardUpdate sample_metrics ''garbage'')) =
       alice_state"
proof -
  have f: "fst (handle demo_libs alice_state (PostDashboardUpdate sample_metrics ''garbage'')) =
     Inl (HTTPException 403 ''Could not validate credentials'' [])"
    using garbage_decode by (simp add: update_dashboard_def split: prod.splits)
  show ?thesis
    using failed_request_leaves_state [where env = demo_libs and s = alice_state
        and req = "PostDashboardUpdate sample_metrics ''garbage''"
        and e = "HTTPException 403 ''Could not validate credentials'' []"] f
    by blast
qed

text \<open>
  Claim C7. On a server started fresh, after any sequence of requests that contains no
  dashboard update by the user whom the token resolves to, \<open>get_dashboard\<close> returns the
  default metrics (sleep 0, exercise 0, waterIntake 0, sex "f/m"). After a successful
  \<open>update_dashboard\<close>, which echoes the payload, \<open>get_dashboard\<close> with the same token
  returns exactly the payload, at once and after any further requests that contain no
  update by that user.
\<close>

theorem dashboard_default_and_update_read:
  "(auth_gate env (run env init_state rs) token = Inr user \<and>
      no_update_by env init_state rs (id' user) \<longrightarrow>
        get_dashboard env (run env init_state rs) token =
          Inr \<lparr>sleep = 0, exercise = 0, waterIntake = 0, sex = Some ''f/m''\<rparr>)
   \<and> (update_dashboard env s health_data token = (Inr r, s') \<longrightarrow>
        r = health_data \<and> get_dashboard env s' token = Inr health_data)
   \<and> (update_dashboard env s health_data token = (Inr r, s') \<and>
      auth_gate env s token = Inr user \<and> no_update_by env s' rs (id' user) \<longrightarrow>
        get_dashboard env (run env s' rs) token = Inr health_data)"
proof -
  have a: "get_dashboard env (run env init_state rs) token = Inr default_metrics"
    if "auth_gate env (run env init_state rs) token = Inr user"
       "no_update_by env init_state rs (id' user)"
  proof -
    have "health_metrics (run env init_state rs) (id' user) = None"
      using run_keeps_metrics [OF that(2)] by (simp add: init_state_def)
    then show ?thesis using that(1) by (simp add: get_dashboard_gate)
  qed
  have c: "get_dashboard env (run env s' rs') token = Inr health_data"
    if "update_dashboard env s health_data token = (Inr r, s')"
       "auth_gate env s token = Inr u" "no_update_by env s' rs' (id' u)" for u rs'
  proof -
    have s': "s' = s\<lparr>health_metrics := (health_metrics s)(id' u \<mapsto> health_data)\<rparr>"
      using that(1,2) by (auto simp: update_dashboard_gate)
    then have g: "auth_gate env s' token = Inr u"
      using that(2) by (auto simp: auth_gate_def split: option.splits)
    have "health_metrics (run env s' rs') (id' u) = Some health_data"
      using run_keeps_metrics [OF that(3)] s' by simp
    then show ?thesis using run_gate [OF g, of rs'] by (simp add: get_dashboard_gate)
  qed
  have b: "r = health_data \<and> get_dashboard env s' token = Inr health_data"
    if u: "update_dashboard env s health_data token = (Inr r, s')"
  proof -
    obtain u where g: "auth_gate env s token = Inr u"
      using u by (cases "auth_gate env s token") (auto simp: update_dashboard_gate split: AuthError.splits)
    have "r = health_data" using u g by (simp add: update_dashboard_gate)
    moreover have "get_dashboard env (run env s' []) token = Inr health_data"
      using c [OF u g, of "[]"] by simp
    ultimately show ?thesis by simp
  qed
  show ?thesis using a b c by (simp add: default_metrics_def)
qed

theorem dashboard_default_and_update_read_witness:
  "get_dashboard demo_libs (run demo_libs init_state [PostRegister alice ''s1'', GetRoot])
     alice_token = Inr \<lparr>sleep = 0, exercise = 0, waterIntake = 0, sex = Some ''f/m''\<rparr>
   \<and> get_dashboard demo_libs
        (snd (update_dashboard demo_libs alice_state sample_metrics alice_token)) alice_token =
      Inr sample_metrics"
proof -
  let ?rs = "[PostRegister alice ''s1'', GetRoot]"
  let ?u = "\<lparr>id' = 1, username = ''alice'', role = ''patient'', password = ''s1$pw123''\<rparr>"
  have r: "run demo_libs init_state ?rs = alice_state"
    by (simp add: alice_state_def split: prod.splits)
  have g: "auth_gate demo_libs (run demo_libs init_state ?rs) alice_token = Inr ?u"
    unfolding r by (rule alice_gate)
  have n: "no_update_by demo_libs init_state ?rs (id' ?u)"
    by (simp add: is_update_by_def)
  obtain s' where u: "update_dashboard demo_libs alice_state sample_metrics alice_token =
      (Inr sample_metrics, s')"
    using alice_gate by (simp add: update_dashboard_gate)
  show ?thesis
    using dashboard_default_and_update_read [where env = demo_libs and rs = ?rs
        and token = alice_token and user = ?u and s = alice_state
        and health_data = sample_metrics and r = sample_metrics and s' = s'] g n u
    by simp
qed

text \<open>
  Claim C8. For an authenticated request, \<open>check_symptoms\<close> collects the union of the
  condition lists of the submitted symptoms that are keys of \<open>SYMPTOM_CONDITIONS\<close>; it
  returns that set when it is not empty, which is the case as soon as one symptom is a key,
  and the no-match message otherwise, which is the case when no symptom is a key. For
  \<open>["fever", "cough"]\<close> the set contains "Flu" and "COVID-19"; for \<open>["unknown_symptom"]\<close> the
  response is the message.
\<close>

theorem check_symptoms_union:
  "auth_gate env s token = Inr user \<longrightarrow>
     check_symptoms env s symptoms token =
       (let U = (\<Union>symptom \<in> set symptoms.
                   case map_of SYMPTOM_CONDITIONS symptom of None \<Rightarrow> {} | Some conds \<Rightarrow> set conds)
        in if U = {} then Inr (Message no_match_message) else Inr (MatchedConditions U))
     \<and> ((\<forall>symptom \<in> set symptoms. symptom \<notin> fst ` set SYMPTOM_CONDITIONS) \<longrightarrow>
          check_symptoms env s symptoms token = Inr (Message no_match_message))
     \<and> ((\<exists>symptom \<in> set symptoms. symptom \<in> fst ` set SYMPTOM_CONDITIONS) \<longrightarrow>
          (\<exists>S. check_symptoms env s symptoms token = Inr (MatchedConditions S) \<and> S \<noteq> {}))
     \<and> (\<exists>S. check_symptoms env s [''fever'', ''cough''] token = Inr (MatchedConditions S)
            \<and> ''Flu'' \<in> S \<and> ''COVID-19'' \<in> S)
     \<and> check_symptoms env s [''unknown_symptom''] token = Inr (Message no_match_message)"
proof
  assume g: "auth_gate env s token = Inr user"
  let ?U = "\<lambda>syms. (\<Union>symptom \<in> set syms.
                   case map_of SYMPTOM_CONDITIONS symptom of None \<Rightarrow> {} | Some conds \<Rightarrow> set conds)"
  have chk: "check_symptoms env s syms token =
      (if ?U syms = {} then Inr (Message no_match_message) else Inr (MatchedConditions (?U syms)))"
    for syms
    using g by (simp add: check_symptoms_gate match_symptoms_union)
  have none: "?U symptoms = {}"
    if no: "\<forall>symptom \<in> set symptoms. symptom \<notin> fst ` set SYMPTOM_CONDITIONS"
  proof -
    have "map_of SYMPTOM_CONDITIONS symptom = None" if "symptom \<in> set symptoms" for symptom
      using that no by (simp add: map_of_eq_None_iff)
    then show ?thesis by simp
  qed
  have some: "?U symptoms \<noteq> {}"
    if ex: "\<exists>symptom \<in> set symptoms. symptom \<in> fst ` set SYMPTOM_CONDITIONS"
  proof -
    obtain symptom where symptom: "symptom \<in> set symptoms" "symptom \<in> fst ` set SYMPTOM_CONDITIONS"
      using ex by blast
    then obtain conds where c: "map_of SYMPTOM_CONDITIONS symptom = Some conds"
      by (metis map_of_eq_None_iff not_Some_eq)
    then have "conds \<noteq> []" by (rule SYMPTOM_CONDITIONS_nonempty)
    then obtain x where "x \<in> set conds" by (cases conds) auto
    then have "x \<in> ?U symptoms" using symptom(1) c by force
    then show ?thesis by blast
  qed
  have fc: "?U [''fever'', ''cough''] = {''Flu'', ''COVID-19'', ''Infection'', ''Cold''}"
    by (auto simp: SYMPTOM_CONDITIONS_def)
  have un: "?U [''unknown_symptom''] = {}"
    by (simp add: SYMPTOM_CONDITIONS_def)
  have c4: "\<exists>S. check_symptoms env s [''fever'', ''cough''] token = Inr (MatchedConditions S)
            \<and> ''Flu'' \<in> S \<and> ''COVID-19'' \<in> S"
    unfolding chk fc by simp
  have c5: "check_symptoms env s [''unknown_symptom''] token = Inr (Message no_match_message)"
    unfolding chk un by simp
  have c1: "check_symptoms env s symptoms token =
       (let U = ?U symptoms
        in if U = {} then Inr (Message no_match_message) else Inr (MatchedConditions U))"
    unfolding Let_def by (rule chk)
  have c2: "(\<forall>symptom \<in> set symptoms. symptom \<notin> fst ` set SYMPTOM_CONDITIONS) \<longrightarrow>
          check_symptoms env s symptoms token = Inr (Message no_match_message)"
  proof
    assume "\<forall>symptom \<in> set symptoms. symptom \<notin> fst ` set SYMPTOM_CONDITIONS"
    then have e: "?U symptoms = {}" by (rule none)
    show "check_symptoms env s symptoms token = Inr (Message no_match_message)"
      by (subst chk) (rule if_P [OF e])
  qed
  have c3: "(\<exists>symptom \<in> set symptoms. symptom \<in> fst ` set SYMPTOM_CONDITIONS) \<longrightarrow>
          (\<exists>S. check_symptoms env s symptoms token = Inr (MatchedConditions S) \<and> S \<noteq> {})"
  proof
    assume "\<exists>symptom \<in> set symptoms. symptom \<in> fst ` set SYMPTOM_CONDITIONS"
    then have ne: "?U symptoms \<noteq> {}" by (rule some)
    have "check_symptoms env s symptoms token = Inr (MatchedConditions (?U symptoms))"
      by (subst chk) (rule if_not_P [OF ne])
    then show "\<exists>S. check_symptoms env s symptoms token = Inr (MatchedConditions S) \<and> S \<noteq> {}"
      using ne by blast
  qed
  show "check_symptoms env s symptoms token =
       (let U = ?U symptoms
        in if U = {} then Inr (Message no_match_message) else Inr (MatchedConditions U))
     \<and> ((\<forall>symptom \<in> set symptoms. symptom \<notin> fst ` set SYMPTOM_CONDITIONS) \<longrightarrow>
          check_symptoms env s symptoms token = Inr (Message no_match_message))
     \<and> ((\<exists>symptom \<in> set symptoms. symptom \<in> fst ` set SYMPTOM_CONDITIONS) \<longrightarrow>
          (\<exists>S. check_symptoms env s symptoms token = Inr (MatchedConditions S) \<and> S \<noteq> {}))
     \<and> (\<exists>S. check_symptoms env s [''fever'', ''cough''] token = Inr (MatchedConditions S)
            \<and> ''Flu'' \<in> S \<and> ''COVID-19'' \<in> S)
     \<and> check_symptoms env s [''unknown_symptom''] token = Inr (Message no_match_message)"
    using c1 c2 c3 c4 c5 by (intro conjI)
qed

theorem check_symptoms_union_witness:
  "\<exists>S. check_symptoms demo_libs alice_state [''fever'', ''cough''] alice_token =
          Inr (MatchedConditions S) \<and> ''Flu'' \<in> S \<and> ''COVID-19'' \<in> S"
  using check_symptoms_union [where env = demo_libs and s = alice_state and token = alice_token
      and symptoms = "[]"] alice_gate
  by blast

text \<open>
  Claim C9. The \<open>patient_id\<close> of the request body has no influence on
  \<open>create_appointment\<close>: two requests that differ in it only have the same response and
  the same state after them. In a successful request the appointment that is stored and
  echoed carries the id of the user whom the token resolves to.
\<close>

theorem appointment_patient_is_token_user:
  "create_appointment env s (appt\<lparr>patient_id := p\<rparr>) token now =
     create_appointment env s (appt\<lparr>patient_id := q\<rparr>) token now
   \<and> (create_appointment env s appt token now = (Inr r, s') \<longrightarrow>
        (\<exists>user. auth_gate env s token = Inr user
           \<and> patient_id (appointment r) = id' user
           \<and> appointments s' = appointments s @ [appointment r]
           \<and> patient_id (last (appointments s')) = id' user))"
  by (auto simp: create_appointment_gate split: sum.splits AuthError.splits option.splits bool.splits)

theorem appointment_patient_is_token_user_witness:
  "\<exists>r s' user. create_appointment demo_libs alice_state sample_appointment alice_token
        clock_2026 = (Inr r, s')
     \<and> auth_gate demo_libs alice_state alice_token = Inr user
     \<and> patient_id (appointment r) = id' user \<and> id' user = 1
     \<and> patient_id sample_appointment = 7"
proof -
  obtain r s' where c: "create_appointment demo_libs alice_state sample_appointment alice_token
        clock_2026 = (Inr r, s')"
    using alice_gate
    by (simp add: create_appointment_gate alice_state_eq seed_doctors_def find_doctor_def
        sample_appointment_def)
  show ?thesis
    using appointment_patient_is_token_user [where env = demo_libs and s = alice_state
        and appt = sample_appointment and token = alice_token and now = clock_2026
        and r = r and s' = s'] c alice_gate
    by (auto simp: sample_appointment_def)
qed

text \<open>
  Claim C10. A successful \<open>update_dashboard\<close> stores the submitted metrics under the id of
  the user whom the token resolves to; the metrics under every other id, the users, the
  doctors and the appointments are unchanged.
\<close>

theorem update_dashboard_frame:
  "update_dashboard env s health_data token = (Inr r, s') \<longrightarrow>
     (\<exists>user. auth_gate env s token = Inr user
        \<and> health_metrics s' (id' user) = Some health_data
        \<and> (\<forall>i. i \<noteq> id' user \<longrightarrow> health_metrics s' i = health_metrics s i)
        \<and> users s' = users s \<and> doctors s' = doctors s \<and> appointments s' = appointments s)"
  by (auto simp: update_dashboard_gate split: sum.splits AuthError.splits)

theorem update_dashboard_frame_witness:
  "\<exists>r s'. update_dashboard demo_libs alice_state sample_metrics alice_token = (Inr r, s')
     \<and> health_metrics s' 1 = Some sample_metrics
     \<and> health_metrics s' 2 = health_metrics alice_state 2
     \<and> users s' = users alice_state \<and> doctors s' = doctors alice_state
     \<and> appointments s' = appointments alice_state"
proof -
  obtain s' where u: "update_dashboard demo_libs alice_state sample_metrics alice_token =
      (Inr sample_metrics, s')"
    using alice_gate by (simp add: update_dashboard_gate)
  show ?thesis
    using update_dashboard_frame [where env = demo_libs and s = alice_state
        and health_data = sample_metrics and token = alice_token and r = sample_metrics
        and s' = s'] u alice_gate
    by auto
qed

end
